theory Spec2Isabelle
  imports Complex_Main
begin

section \<open>Python strings and sorting\<close>

text \<open>
  Python compares strings by code point, position by position; \<^verbatim>\<open>sorted\<close> is stable.
\<close>

fun str_less :: "string \<Rightarrow> string \<Rightarrow> bool" where
  "str_less [] [] = False"
| "str_less [] (y # ys) = True"
| "str_less (x # xs) [] = False"
| "str_less (x # xs) (y # ys) =
     ((of_char x :: nat) < of_char y \<or> (x = y \<and> str_less xs ys))"

fun insert_sorted :: "('a \<Rightarrow> string) \<Rightarrow> 'a \<Rightarrow> 'a list \<Rightarrow> 'a list" where
  "insert_sorted key x [] = [x]"
| "insert_sorted key x (y # ys) =
     (if str_less (key y) (key x) then y # insert_sorted key x ys else x # y # ys)"

definition py_sorted :: "('a \<Rightarrow> string) \<Rightarrow> 'a list \<Rightarrow> 'a list" where
  "py_sorted key xs = foldr (insert_sorted key) xs []"

text \<open>\<^verbatim>\<open>s.startswith(p)\<close>, \<^verbatim>\<open>s.endswith(p)\<close> and \<^verbatim>\<open>p in s\<close>.\<close>

fun startswith :: "string \<Rightarrow> string \<Rightarrow> bool" where
  "startswith s [] = True"
| "startswith [] (p # ps) = False"
| "startswith (c # cs) (p # ps) = (c = p \<and> startswith cs ps)"

definition endswith :: "string \<Rightarrow> string \<Rightarrow> bool" where
  "endswith s p = startswith (rev s) (rev p)"

fun contains :: "string \<Rightarrow> string \<Rightarrow> bool" where
  "contains p [] = (p = [])"
| "contains p (c # cs) = (startswith (c # cs) p \<or> contains p cs)"

text \<open>\<^verbatim>\<open>s.split(sep)\<close> for a one-character separator, \<^verbatim>\<open>s.strip(chars)\<close> and
  \<^verbatim>\<open>','.join(xs)\<close>.\<close>

fun split_on :: "char \<Rightarrow> string \<Rightarrow> string list" where
  "split_on sep [] = [[]]"
| "split_on sep (c # cs) =
     (if c = sep then [] # split_on sep cs
      else (case split_on sep cs of [] \<Rightarrow> [[c]] | w # ws \<Rightarrow> (c # w) # ws))"

definition strip_chars :: "string \<Rightarrow> string \<Rightarrow> string" where
  "strip_chars chars s =
     rev (dropWhile (\<lambda>c. c \<in> set chars) (rev (dropWhile (\<lambda>c. c \<in> set chars) s)))"

fun join_comma :: "string list \<Rightarrow> string" where
  "join_comma [] = []"
| "join_comma [x] = x"
| "join_comma (x # y # ys) = x @ '','' @ join_comma (y # ys)"

section \<open>Breakpoint records\<close>

text \<open>
  A \<^verbatim>\<open>pysam.VariantRecord\<close> as the resolver reads and writes it: the attributes
  \<^verbatim>\<open>id\<close>, \<^verbatim>\<open>chrom\<close>, \<^verbatim>\<open>pos\<close>, \<^verbatim>\<open>stop\<close>, \<^verbatim>\<open>alts\<close> and the keys of
  \<^verbatim>\<open>record.info\<close> the code touches. The end coordinate is optional: the code's own
  comment (\<^verbatim>\<open>Setting alts removes END\<close>) says that an assignment to \<^verbatim>\<open>alts\<close> clears it.
  A formatted interval string \<^verbatim>\<open>'{svtype}_{chrom}:{start}-{end}'\<close> is kept as the tuple
  of its four components.
\<close>

type_synonym interval = "string \<times> string \<times> int \<times> int"

record vrec =
  rid :: string
  chrom :: string
  pos :: int
  stop :: "int option"
  alts :: "string list"
  SVTYPE :: string
  CHR2 :: string
  STRANDS :: string
  SVLEN :: int
  ALGORITHMS :: "string list"
  EVIDENCE :: "string list option"
  varGQ :: "int option"
  CPX_TYPE :: "string option"
  CPX_INTERVALS :: "interval list option"
  SOURCE :: "interval option"
  MEMBERS :: "string list option"
  EVENT :: "string option"
  UNRESOLVED :: bool

datatype error =
    AttributeError
  | IndexError
  | ValueError
  | UnboundLocalError
  | StopIteration
  | ZeroDivisionError
  | TypeError
  | InvalidInversionOrientation string
  | InvalidCpxType string

section \<open>Stream reconciliation: \<^verbatim>\<open>_merge_records\<close>\<close>

text \<open>
  \<^verbatim>\<open>_next_record\<close> and \<^verbatim>\<open>_next_cpx\<close>: the next element of the iterator, or
  \<^verbatim>\<open>None\<close> when it is exhausted. An element of \<^verbatim>\<open>vcf\<close> that is itself \<^verbatim>\<open>None\<close>
  cannot be told from exhaustion, so the stream is a list of optional records. The
  deque is only ever filled with records.
\<close>

definition next_record :: "vrec option list \<Rightarrow> vrec option \<times> vrec option list" where
  "next_record vcf = (case vcf of [] \<Rightarrow> (None, []) | r # rest \<Rightarrow> (r, rest))"

definition next_cpx :: "vrec list \<Rightarrow> vrec option \<times> vrec list" where
  "next_cpx cpx_records = (case cpx_records of [] \<Rightarrow> (None, []) | c # rest \<Rightarrow> (Some c, rest))"

type_synonym merge_state = "vrec option \<times> vrec option list \<times> vrec option \<times> vrec list"

text \<open>
  The \<^verbatim>\<open>while curr_record is not None and curr_cpx is not None\<close> loop. It returns
  the records yielded and the state it leaves: current record, rest of the stream,
  current complex record, rest of the deque.
\<close>

function merge_loop ::
  "(string \<Rightarrow> string \<Rightarrow> bool) \<Rightarrow> string set \<Rightarrow> vrec option \<Rightarrow> vrec option list \<Rightarrow>
   vrec option \<Rightarrow> vrec list \<Rightarrow> vrec option list \<times> merge_state" where
  "merge_loop is_smaller_chrom cpx_record_ids curr_record vcf curr_cpx cpx_records =
     (case (curr_record, curr_cpx) of
        (Some r, Some c) \<Rightarrow>
          if rid r \<in> cpx_record_ids then
            merge_loop is_smaller_chrom cpx_record_ids
              (fst (next_record vcf)) (snd (next_record vcf)) curr_cpx cpx_records
          else if chrom r = chrom c then
            (if pos r \<le> pos c then
               (let (out, st) = merge_loop is_smaller_chrom cpx_record_ids
                      (fst (next_record vcf)) (snd (next_record vcf)) curr_cpx cpx_records
                in (Some r # out, st))
             else
               (let (out, st) = merge_loop is_smaller_chrom cpx_record_ids
                      curr_record vcf (fst (next_cpx cpx_records)) (snd (next_cpx cpx_records))
                in (Some c # out, st)))
          else if is_smaller_chrom (chrom r) (chrom c) then
            (let (out, st) = merge_loop is_smaller_chrom cpx_record_ids
                   (fst (next_record vcf)) (snd (next_record vcf)) curr_cpx cpx_records
             in (Some r # out, st))
          else
            (let (out, st) = merge_loop is_smaller_chrom cpx_record_ids
                   curr_record vcf (fst (next_cpx cpx_records)) (snd (next_cpx cpx_records))
             in (Some c # out, st))
      | _ \<Rightarrow> ([], (curr_record, vcf, curr_cpx, cpx_records)))"
  by pat_completeness auto
termination
  by (relation "measure (\<lambda>(lt, ids, cr, vcf, cc, cpx).
        (case cr of None \<Rightarrow> 0 | Some _ \<Rightarrow> Suc (length vcf)) +
        (case cc of None \<Rightarrow> 0 | Some _ \<Rightarrow> Suc (length cpx)))")
     (auto simp: next_record_def next_cpx_def split: list.splits option.splits)

declare merge_loop.simps [simp del]

text \<open>
  The drain of the original stream after the deque is exhausted:
  \<^verbatim>\<open>for record in chain([curr_record], vcf): if record.id not in cpx_record_ids: yield record\<close>.
  Reading \<^verbatim>\<open>.id\<close> of a \<^verbatim>\<open>None\<close> element raises.
\<close>

fun drain :: "string set \<Rightarrow> vrec option list \<Rightarrow> error + vrec option list" where
  "drain cpx_record_ids [] = Inr []"
| "drain cpx_record_ids (None # rest) = Inl AttributeError"
| "drain cpx_record_ids (Some r # rest) =
     (case drain cpx_record_ids rest of
        Inl e \<Rightarrow> Inl e
      | Inr out \<Rightarrow> Inr (if rid r \<notin> cpx_record_ids then Some r # out else out))"

text \<open>
  The generator, run to its end: the list of yielded values (a yielded value can be
  \<^verbatim>\<open>None\<close>), or the exception that ended it.
\<close>

definition merge_records ::
  "(string \<Rightarrow> string \<Rightarrow> bool) \<Rightarrow> vrec option list \<Rightarrow> vrec list \<Rightarrow> string set \<Rightarrow>
   error + vrec option list" where
  "merge_records is_smaller_chrom vcf cpx_records cpx_record_ids =
     (let (curr_record, vcf1) = next_record vcf;
          (curr_cpx, cpx1) = next_cpx cpx_records;
          (out, (curr_record', vcf', curr_cpx', cpx')) =
             merge_loop is_smaller_chrom cpx_record_ids curr_record vcf1 curr_cpx cpx1
      in if curr_record' = None then Inr (out @ curr_cpx' # map Some cpx')
         else if curr_cpx' = None then
           (case drain cpx_record_ids (curr_record' # vcf') of
              Inl e \<Rightarrow> Inl e
            | Inr rest \<Rightarrow> Inr (out @ rest))
         else Inr out)"

section \<open>The complex variant classifier: \<^verbatim>\<open>ComplexSV\<close>\<close>

text \<open>
  Reading \<^verbatim>\<open>record.stop\<close> (and \<^verbatim>\<open>record.info['END']\<close>, the same coordinate): the end
  coordinate when the record has one; a record whose end was cleared reports its start.
\<close>

definition stop_of :: "vrec \<Rightarrow> int" where
  "stop_of r = (case stop r of Some e \<Rightarrow> e | None \<Rightarrow> pos r)"

text \<open>\<^verbatim>\<open>record.alts = a\<close>: the assignment clears the end coordinate.\<close>

definition set_alts :: "vrec \<Rightarrow> string list \<Rightarrow> vrec" where
  "set_alts r a = r\<lparr>alts := a, stop := None\<rparr>"

text \<open>
  What the classifier takes from outside the files at hand: the INFO keys of the VCF
  header, the cytoband table (per query position, the band names of the lines fetched),
  the fraction of an interval covered by mobile elements (bedtools coverage), and the
  functions \<^verbatim>\<open>classify_complex_inversion\<close>, \<^verbatim>\<open>classify_insertion\<close> and
  \<^verbatim>\<open>svu.update_best_genotypes\<close>, whose modules are not among the source files.
\<close>

record env =
  header_info :: "string list"
  cytobands :: "string \<Rightarrow> int \<Rightarrow> string list"
  mei_coverage :: "string \<Rightarrow> int \<Rightarrow> int \<Rightarrow> rat"
  classify_complex_inversion :: "vrec \<Rightarrow> vrec \<Rightarrow> vrec list \<Rightarrow> string \<times> vrec list"
  classify_insertion :: "vrec \<Rightarrow> vrec \<Rightarrow> string"
  update_best_genotypes :: "vrec \<Rightarrow> vrec list \<Rightarrow> vrec"

text \<open>
  The attributes of a \<^verbatim>\<open>ComplexSV\<close> object. \<^verbatim>\<open>cluster_type\<close>, \<^verbatim>\<open>svtype\<close> and
  \<^verbatim>\<open>cpx_type\<close> do not exist until a method assigns them.
\<close>

record ComplexSV =
  records :: "vrec list"
  inversions :: "vrec list"
  tlocs :: "vrec list"
  breakends :: "vrec list"
  insertions :: "vrec list"
  cnvs :: "vrec list"
  vcf_record :: vrec
  cluster_type :: "string option"
  svtype :: "string option"
  cpx_type :: "string option"

definition organize_records :: "ComplexSV \<Rightarrow> ComplexSV" where
  "organize_records self = self\<lparr>
     inversions := filter (\<lambda>r. SVTYPE r = ''INV'') (records self),
     tlocs := filter (\<lambda>r. chrom r \<noteq> CHR2 r) (records self),
     breakends := filter (\<lambda>r. chrom r = CHR2 r \<and> SVTYPE r = ''BND'') (records self),
     insertions := filter (\<lambda>r. SVTYPE r = ''INS'') (records self),
     cnvs := filter (\<lambda>r. SVTYPE r \<in> set [''DEL'', ''DUP'']) (records self)\<rparr>"

definition is_SR_only :: "vrec \<Rightarrow> bool" where
  "is_SR_only record = (EVIDENCE record = Some [''SR''])"

definition remove_SR_only_breakpoints :: "env \<Rightarrow> ComplexSV \<Rightarrow> error + ComplexSV" where
  "remove_SR_only_breakpoints e self =
     (case records self of
        [] \<Rightarrow> Inl IndexError
      | _ # _ \<Rightarrow>
          if ''EVIDENCE'' \<in> set (header_info e) then
            (let clean_records = filter (\<lambda>r. \<not> is_SR_only r) (records self)
             in if length clean_records > 0 then Inr (self\<lparr>records := clean_records\<rparr>)
                else Inr self)
          else Inr self)"

definition set_unresolved :: "ComplexSV \<Rightarrow> ComplexSV" where
  "set_unresolved self = self\<lparr>svtype := Some ''UNR'', cpx_type := cluster_type self\<rparr>"

subsection \<open>Cluster type\<close>

definition ok_tloc_strands :: "vrec \<Rightarrow> vrec \<Rightarrow> bool" where
  "ok_tloc_strands tloc1 tloc2 =
     (case py_sorted id [STRANDS tloc1, STRANDS tloc2] of
        [strand1, strand2] \<Rightarrow>
          (strand1 = ''++'' \<and> strand2 = ''--'') \<or> (strand1 = ''+-'' \<and> strand2 = ''-+'')
      | _ \<Rightarrow> False)"

definition ok_ins_strands :: "vrec \<Rightarrow> vrec \<Rightarrow> bool" where
  "ok_ins_strands bnd1 bnd2 =
     (case py_sorted id [STRANDS bnd1, STRANDS bnd2] of
        [strand1, strand2] \<Rightarrow> strand1 = ''+-'' \<and> strand2 = ''-+''
      | _ \<Rightarrow> False)"

text \<open>
  \<^verbatim>\<open>set_cluster_type\<close>. In the branch for a total of at least two, the source compares
  the list \<^verbatim>\<open>self.insertions\<close> itself with \<^verbatim>\<open>1\<close> (\<^verbatim>\<open>if(self.insertions) == 1 and ...\<close>);
  a list never equals an integer, so that test is \<^verbatim>\<open>False\<close> whatever the lists are.
  The indexed reads are within range: index \<^verbatim>\<open>idx\<close> is paired, so its list has two
  elements.
\<close>

definition list_eq_int :: "vrec list \<Rightarrow> int \<Rightarrow> bool" where
  "list_eq_int xs n = False"

definition set_cluster_type :: "ComplexSV \<Rightarrow> ComplexSV" where
  "set_cluster_type self =
     (let class_counts = map length [inversions self, tlocs self, breakends self, insertions self];
          paired = map (\<lambda>count. count = 2) class_counts;
          absent = map (\<lambda>count. count = 0) class_counts;
          where_paired = filter (\<lambda>i. paired ! i) [0..<length paired]
      in self\<lparr>cluster_type := Some (
        if list_all (\<lambda>(p, a). p \<noteq> a) (zip paired absent) \<and> length where_paired = 1 then
          (let idx = where_paired ! 0 in
           if idx = 0 then
             (if STRANDS (inversions self ! 0) = STRANDS (inversions self ! 1)
              then ''MATCHED_STRANDS'' else ''CANDIDATE_INVERSION'')
           else if idx = 1 then
             (if length (cnvs self) > 0 then ''TLOC_WITH_CNV''
              else if ok_tloc_strands (tlocs self ! 0) (tlocs self ! 1)
              then ''CANDIDATE_TRANSLOCATION''
              else ''STRAND_MISMATCH_TLOC'')
           else if idx = 2 then
             (if length (cnvs self) > 0 then ''INS_WITH_CNV''
              else if ok_ins_strands (breakends self ! 0) (breakends self ! 1)
              then ''CANDIDATE_INSERTION''
              else ''STRAND_MISMATCH_INS'')
           else ''MULTIPLE_RESOLVED_INSERTIONS'')
        else if sum_list class_counts = 0 then ''ERROR_CNV_ONLY''
        else if sum_list class_counts = 1 then
          (if length (insertions self) = 1 then ''RESOLVED_INSERTION'' else ''SINGLE_ENDER'')
        else if sum_list class_counts \<ge> 2 then
          (if list_eq_int (insertions self) 1 \<and> length (breakends self) \<ge> 1
           then ''RESOLVED_INSERTION'' else ''MIXED_BREAKENDS'')
        else ''ERROR_UNCLASSIFIED'')\<rparr>)"

subsection \<open>Inversions\<close>

definition make_inversion_intervals ::
  "vrec \<Rightarrow> vrec \<Rightarrow> vrec list \<Rightarrow> string \<Rightarrow> interval list" where
  "make_inversion_intervals FF RR cnv_list cpx =
     (if startswith cpx ''del'' then [(''DEL'', chrom FF, pos FF, pos RR)] else []) @
     (if startswith cpx ''dup'' then [(''DUP'', chrom FF, pos RR, pos FF)] else []) @
     [(''INV'', chrom FF, pos RR, stop_of FF)] @
     (if endswith cpx ''del'' then [(''DEL'', chrom FF, stop_of FF, stop_of RR)] else []) @
     (if endswith cpx ''dup'' then [(''DUP'', chrom FF, stop_of RR, stop_of FF)] else [])"

definition check_mei_overlap :: "env \<Rightarrow> string \<Rightarrow> int \<Rightarrow> int \<Rightarrow> bool" where
  "check_mei_overlap e c start end = (mei_coverage e c start end \<ge> 1 / 2)"

definition inversion_svtype :: "string \<Rightarrow> string" where
  "inversion_svtype cpx =
     (if cpx = ''INV'' then ''INV''
      else if cpx = ''UNK'' then ''UNR''
      else if cpx = ''COMPLEX_INS'' then ''UNR''
      else if contains ''INS'' cpx then ''INS''
      else ''CPX'')"

text \<open>
  \<^verbatim>\<open>resolve_inversion\<close>. The statements are kept in the order of the source: the span
  is written first, and the assignment to \<^verbatim>\<open>alts\<close> comes last.
\<close>

definition resolve_inversion :: "env \<Rightarrow> ComplexSV \<Rightarrow> error + ComplexSV" where
  "resolve_inversion e self =
     (case inversions self of
        [i0, i1] \<Rightarrow>
          (let (FF, RR) = (if STRANDS i0 = ''++'' then (i0, i1) else (i1, i0));
               (cpx, cnvs') = classify_complex_inversion e FF RR (cnvs self);
               sv = inversion_svtype cpx;
               self1 = self\<lparr>cpx_type := Some cpx, records := [FF, RR] @ cnvs', svtype := Some sv\<rparr>;
               v = vcf_record self1;
               finish = (\<lambda>s. Inr (s\<lparr>vcf_record :=
                          (set_alts (vcf_record s) [''<'' @ sv @ ''>''])
                            \<lparr>SVTYPE := sv, CPX_TYPE := cpx_type s\<rparr>\<rparr>))
           in if sv \<in> set [''INV'', ''CPX'', ''UNR''] then
                (let v1 = v\<lparr>pos := min (pos FF) (pos RR)\<rparr>;
                     v2 = v1\<lparr>stop := Some (max (stop_of FF) (stop_of RR))\<rparr>;
                     v3 = v2\<lparr>SVLEN := abs (stop_of v2 - pos v2)\<rparr>;
                     v4 = v3\<lparr>CPX_INTERVALS :=
                            Some (make_inversion_intervals FF RR (cnvs self1) cpx)\<rparr>
                 in finish (self1\<lparr>vcf_record := v4\<rparr>))
              else if sv = ''INS'' then
                (case (if cpx = ''DUP5/INS3''
                         then Some (pos RR, pos FF, stop_of FF, stop_of RR)
                       else if cpx = ''DUP3/INS5''
                         then Some (stop_of RR, stop_of FF, pos FF, pos RR)
                       else None) of
                   None \<Rightarrow> Inl UnboundLocalError
                 | Some (source_start, source_end, sink_start, sink_end) \<Rightarrow>
                     (let is_mei = check_mei_overlap e (chrom v) source_start source_end;
                          cpx' = (if is_mei then ''MEI_'' @ (split_on CHR ''/'' cpx ! 1) else cpx);
                          v1 = v\<lparr>pos := sink_start\<rparr>;
                          v2 = v1\<lparr>stop := Some sink_end\<rparr>;
                          v3 = v2\<lparr>SVLEN := abs (source_end - source_start)\<rparr>;
                          v4 = v3\<lparr>SOURCE := Some (''INV'', chrom v3, source_start, source_end)\<rparr>
                      in finish (self1\<lparr>cpx_type := Some cpx', vcf_record := v4\<rparr>)))
              else finish self1)
      | _ \<Rightarrow> Inl ValueError)"

subsection \<open>Translocations\<close>

definition classify_simple_translocation :: "vrec \<Rightarrow> vrec \<Rightarrow> int \<Rightarrow> string" where
  "classify_simple_translocation plus_r minus_r mh_buffer =
     (if chrom plus_r \<noteq> chrom minus_r \<or> CHR2 plus_r \<noteq> CHR2 minus_r then ''TLOC_MISMATCH_CHROM''
      else
        (let plus_A = pos plus_r;
             minus_A = pos minus_r;
             plus_B = stop_of plus_r;
             minus_B = stop_of minus_r;
             plus_strands = STRANDS plus_r;
             greater = (\<lambda>p1 p2. p1 > p2 - mh_buffer)
         in if plus_strands = ''+-'' then
              (if greater minus_A plus_A \<and> greater plus_B minus_B then ''CTX_PP/QQ''
               else if greater minus_A plus_A \<and> greater minus_B plus_B then ''CTX_INS_B2A''
               else if greater plus_A minus_A \<and> greater plus_B minus_B then ''CTX_INS_A2B''
               else ''CTX_UNR'')
            else
              (if greater minus_A plus_A \<and> greater minus_B plus_B then ''CTX_PQ/QP''
               else if greater minus_A plus_A \<and> greater plus_B minus_B then ''CTX_INV_INS_B2A''
               else if greater plus_A minus_A \<and> greater minus_B plus_B then ''CTX_INV_INS_A2B''
               else ''CTX_UNR'')))"

text \<open>
  \<^verbatim>\<open>get_arms\<close>: the arm is the first character of the band name of the first cytoband
  line fetched at the position; \<^verbatim>\<open>next\<close> on an empty fetch raises \<^verbatim>\<open>StopIteration\<close>.
\<close>

definition get_arm :: "env \<Rightarrow> string \<Rightarrow> int \<Rightarrow> error + char" where
  "get_arm e c p =
     (case cytobands e c p of
        [] \<Rightarrow> Inl StopIteration
      | band # _ \<Rightarrow> (case band of [] \<Rightarrow> Inl IndexError | a # _ \<Rightarrow> Inr a))"

definition get_arms :: "env \<Rightarrow> vrec \<Rightarrow> error + (char \<times> char)" where
  "get_arms e record =
     (case get_arm e (chrom record) (pos record) of
        Inl err \<Rightarrow> Inl err
      | Inr armA \<Rightarrow>
          (case get_arm e (CHR2 record) (stop_of record) of
             Inl err \<Rightarrow> Inl err
           | Inr armB \<Rightarrow> Inr (armA, armB)))"

text \<open>
  The first \<^verbatim>\<open>if\<close>/\<^verbatim>\<open>elif\<close> chain of \<^verbatim>\<open>resolve_translocation\<close>: the pair
  (\<^verbatim>\<open>svtype\<close>, \<^verbatim>\<open>cpx_type\<close>) it assigns, or the exception of its last branch.
\<close>

definition translocation_type ::
  "vrec \<Rightarrow> vrec \<Rightarrow> char \<Rightarrow> char \<Rightarrow> string \<Rightarrow> error + (string \<times> string)" where
  "translocation_type plus_r minus_r armA armB cpx =
     (if contains ''INS'' cpx then Inr (''INS'', cpx)
      else if cpx \<in> set [''TLOC_MISMATCH_CHROM'', ''CTX_UNR''] then Inr (''UNR'', cpx)
      else if cpx = ''CTX_PP/QQ'' then
        (if pos plus_r = pos minus_r \<and> stop_of plus_r = stop_of minus_r
           then Inr (''UNR'', cpx @ ''_DUPLICATE_COORDS'')
         else if armA = armB then Inr (''CTX'', cpx)
         else Inr (''UNR'', cpx @ ''_MISMATCH''))
      else if cpx = ''CTX_PQ/QP'' then
        (if pos plus_r = pos minus_r \<and> stop_of plus_r = stop_of minus_r
           then Inr (''UNR'', cpx @ ''_DUPLICATE_COORDS'')
         else if armA \<noteq> armB then Inr (''CTX'', cpx)
         else Inr (''UNR'', cpx @ ''_MISMATCH''))
      else Inl (InvalidCpxType cpx))"

text \<open>The sink and source coordinates of the four insertion classes, in the order
  (\<^verbatim>\<open>sink_start\<close>, \<^verbatim>\<open>sink_end\<close>, \<^verbatim>\<open>source_start\<close>, \<^verbatim>\<open>source_end\<close>); no class
  matching leaves the variables unbound.\<close>

definition translocation_insertion_span ::
  "vrec \<Rightarrow> vrec \<Rightarrow> string \<Rightarrow> (int \<times> int \<times> int \<times> int) option" where
  "translocation_insertion_span plus_r minus_r cpx =
     (if cpx = ''CTX_INS_B2A'' then Some (pos plus_r, pos minus_r, stop_of plus_r, stop_of minus_r)
      else if cpx = ''CTX_INV_INS_B2A'' then Some (pos plus_r, pos minus_r, stop_of minus_r, stop_of plus_r)
      else if cpx = ''CTX_INS_A2B'' then Some (stop_of minus_r, stop_of plus_r, pos minus_r, pos plus_r)
      else if cpx = ''CTX_INV_INS_A2B'' then Some (stop_of plus_r, stop_of minus_r, pos minus_r, pos plus_r)
      else None)"

definition resolve_translocation :: "env \<Rightarrow> ComplexSV \<Rightarrow> error + ComplexSV" where
  "resolve_translocation e self =
     (case py_sorted STRANDS (tlocs self) of
        [plus_r, minus_r] \<Rightarrow>
          (case get_arms e plus_r of
             Inl err \<Rightarrow> Inl err
           | Inr (armA, armB) \<Rightarrow>
               (case translocation_type plus_r minus_r armA armB
                       (classify_simple_translocation plus_r minus_r 50) of
                  Inl err \<Rightarrow> Inl err
                | Inr (sv, cpx) \<Rightarrow>
                    (let v = (set_alts (vcf_record self) [''<'' @ sv @ ''>''])
                               \<lparr>SVTYPE := sv, CPX_TYPE := Some cpx\<rparr>;
                         self1 = self\<lparr>cpx_type := Some cpx, svtype := Some sv, vcf_record := v\<rparr>
                     in if sv = ''CTX'' then
                          Inr (self1\<lparr>vcf_record := v\<lparr>chrom := chrom plus_r, pos := pos plus_r,
                                 CHR2 := CHR2 plus_r, stop := Some (stop_of plus_r), SVLEN := - 1\<rparr>\<rparr>)
                        else if sv = ''INS'' then
                          (let (sink_chrom, source_chrom) =
                                 (if contains ''B2A'' cpx then (chrom plus_r, CHR2 plus_r)
                                  else (CHR2 plus_r, chrom plus_r))
                           in case translocation_insertion_span plus_r minus_r cpx of
                                None \<Rightarrow> Inl UnboundLocalError
                              | Some (sink_start, sink_end, source_start, source_end) \<Rightarrow>
                                  Inr (self1\<lparr>vcf_record := v\<lparr>chrom := sink_chrom,
                                         pos := sink_start, stop := Some sink_end,
                                         CHR2 := source_chrom,
                                         SVLEN := abs (source_end - source_start),
                                         SOURCE := Some
                                           (if contains ''INV'' cpx then ''INV'' else ''INS'',
                                            source_chrom, source_start, source_end)\<rparr>\<rparr>))
                        else Inr self1)))
      | _ \<Rightarrow> Inl ValueError)"

subsection \<open>Insertions from a breakend pair\<close>

definition insertion_span :: "vrec \<Rightarrow> vrec \<Rightarrow> string \<Rightarrow> (int \<times> int \<times> int \<times> int) option" where
  "insertion_span plus_r minus_r cpx =
     (if cpx = ''INS_B2A'' then Some (pos plus_r, pos minus_r, stop_of plus_r, stop_of minus_r)
      else if cpx = ''INS_A2B'' then Some (stop_of minus_r, stop_of plus_r, pos minus_r, pos plus_r)
      else None)"

text \<open>
  Replacing \<^verbatim>\<open>self.vcf_record\<close> by \<^verbatim>\<open>self.insertions[0]\<close> shares that record object
  with the lists it is in: the write of \<^verbatim>\<open>ALGORITHMS\<close> is seen through them too.
\<close>

definition replace_shared :: "vrec \<Rightarrow> vrec \<Rightarrow> vrec list \<Rightarrow> vrec list" where
  "replace_shared old new xs = map (\<lambda>r. if r = old then new else r) xs"

definition resolve_insertion :: "env \<Rightarrow> ComplexSV \<Rightarrow> error + ComplexSV" where
  "resolve_insertion e self =
     (case py_sorted STRANDS (breakends self) of
        [plus_r, minus_r] \<Rightarrow>
          (let cpx = classify_insertion e plus_r minus_r
           in if cpx = ''INS_UNCLASSIFIED'' then
                Inr (self\<lparr>cpx_type := Some cpx, svtype := Some ''UNR''\<rparr>)
              else
                (let v = (set_alts (vcf_record self) [''<INS>''])
                           \<lparr>SVTYPE := ''INS'', CPX_TYPE := Some cpx\<rparr>;
                     self1 = self\<lparr>cpx_type := Some cpx, svtype := Some ''INS'', vcf_record := v\<rparr>;
                     sink_chrom = chrom plus_r;
                     source_chrom = chrom plus_r
                 in case insertion_span plus_r minus_r cpx of
                      None \<Rightarrow> Inl UnboundLocalError
                    | Some (sink_start, sink_end, source_start, source_end) \<Rightarrow>
                        if sink_end - sink_start \<ge> 100 then Inr (set_unresolved self1)
                        else
                          (let v1 = v\<lparr>chrom := sink_chrom, pos := sink_start,
                                      stop := Some sink_end, CHR2 := source_chrom,
                                      SVLEN := abs (source_end - source_start),
                                      SOURCE := Some (''INS'', source_chrom, source_start, source_end)\<rparr>;
                               self2 = self1\<lparr>vcf_record := v1\<rparr>
                           in case insertions self2 of
                                [ins] \<Rightarrow>
                                  (let algs = py_sorted id (remdups (ALGORITHMS v1 @ ALGORITHMS ins));
                                       ins' = ins\<lparr>ALGORITHMS := algs\<rparr>
                                   in Inr (self2\<lparr>vcf_record := ins',
                                             insertions := [ins'],
                                             records := replace_shared ins ins' (records self2)\<rparr>))
                              | _ \<Rightarrow> Inr self2)))
      | _ \<Rightarrow> Inl ValueError)"

subsection \<open>Insertions already resolved\<close>

definition report_simple_insertion :: "ComplexSV \<Rightarrow> error + ComplexSV" where
  "report_simple_insertion self =
     (if length (breakends self) > 0 \<and> length (cnvs self) = 0 then
        (case insertions self of
           [] \<Rightarrow> Inl IndexError
         | record # _ \<Rightarrow>
             (case alts record of
                [] \<Rightarrow> Inl IndexError
              | a # _ \<Rightarrow>
                  (let cpx = strip_chars ''<>'' a
                   in Inr (self\<lparr>cpx_type := Some cpx, svtype := Some ''INS'',
                             vcf_record := (set_alts (vcf_record self) (alts record))
                               \<lparr>SVTYPE := ''INS'', CPX_TYPE := Some cpx,
                                CHR2 := CHR2 record, SVLEN := SVLEN record\<rparr>\<rparr>))))
      else if length (cnvs self) = 1 \<and> length (breakends self) = 0 then
        (if SVTYPE (cnvs self ! 0) = ''DUP'' then
           (let record = cnvs self ! 0
            in Inr (self\<lparr>svtype := Some ''DUP'',
                      vcf_record := (set_alts (vcf_record self) (alts record))
                        \<lparr>SVTYPE := ''DUP'', CHR2 := CHR2 record, SVLEN := SVLEN record\<rparr>\<rparr>))
         else Inr (set_unresolved self))
      else Inr (set_unresolved self))"

subsection \<open>The constructor\<close>

definition resolve_candidate :: "env \<Rightarrow> ComplexSV \<Rightarrow> (error + ComplexSV) option" where
  "resolve_candidate e self =
     (if cluster_type self = Some ''CANDIDATE_INVERSION'' then Some (resolve_inversion e self)
      else if cluster_type self = Some ''CANDIDATE_TRANSLOCATION''
        then Some (resolve_translocation e self)
      else if cluster_type self = Some ''CANDIDATE_INSERTION'' then Some (resolve_insertion e self)
      else if cluster_type self = Some ''RESOLVED_INSERTION''
        then Some (report_simple_insertion self)
      else None)"

text \<open>
  \<^verbatim>\<open>resolve\<close>: the four-way dispatch on the cluster type (\<open>resolve_candidate\<close>, \<^verbatim>\<open>None\<close>
  for the final \<^verbatim>\<open>else\<close>), tried once, and once more after the split-read-only
  members are dropped.
\<close>

definition resolve :: "env \<Rightarrow> ComplexSV \<Rightarrow> error + ComplexSV" where
  "resolve e self =
     (let self1 = set_cluster_type self
      in case resolve_candidate e self1 of
           Some result \<Rightarrow> result
         | None \<Rightarrow>
             (case remove_SR_only_breakpoints e self1 of
                Inl err \<Rightarrow> Inl err
              | Inr self2 \<Rightarrow>
                  (let self3 = set_cluster_type (organize_records self2)
                   in case resolve_candidate e self3 of
                        Some result \<Rightarrow> result
                      | None \<Rightarrow> Inr (set_unresolved self3))))"

definition record_ids :: "ComplexSV \<Rightarrow> string list" where
  "record_ids self = map rid (records self)"

text \<open>\<^verbatim>\<open>max\<close> and \<^verbatim>\<open>min\<close> of a sequence raise \<^verbatim>\<open>ValueError\<close> when it is empty.\<close>

fun max_from :: "int \<Rightarrow> int list \<Rightarrow> int" where
  "max_from m [] = m"
| "max_from m (x # xs) = max_from (max m x) xs"




definition clean_record :: "env \<Rightarrow> ComplexSV \<Rightarrow> ComplexSV" where
  "clean_record e self =
     (let sources = remdups (concat (map ALGORITHMS (records self)));
          v1 = (vcf_record self)\<lparr>ALGORITHMS := [join_comma (py_sorted id sources)]\<rparr>;
          members = map rid (records self);
          v2 = v1\<lparr>MEMBERS := Some (py_sorted id members)\<rparr>;
          varGQs = concat (map (\<lambda>record. case varGQ record of None \<Rightarrow> [] | Some q \<Rightarrow> [q])
                     (records self));
          v3 = (case varGQs of
                  [] \<Rightarrow> v2
                | q # qs \<Rightarrow> if ''varGQ'' \<in> set (header_info e)
                            then v2\<lparr>varGQ := Some (max_from q qs)\<rparr> else v2)
      in self\<lparr>vcf_record := v3\<rparr>)"

text \<open>
  \<^verbatim>\<open>make_record\<close>: a copy of the first member (an empty list has none), passed
  through \<^verbatim>\<open>svu.update_best_genotypes\<close>.
\<close>

definition make_record :: "env \<Rightarrow> vrec list \<Rightarrow> error + vrec" where
  "make_record e rs =
     (case rs of [] \<Rightarrow> Inl IndexError | first # _ \<Rightarrow> Inr (update_best_genotypes e first rs))"

text \<open>The attributes of the object when \<^verbatim>\<open>resolve\<close> starts: the records, their
  partition by \<^verbatim>\<open>organize_records\<close>, and the record of \<^verbatim>\<open>make_record\<close>.\<close>

definition attributes :: "vrec list \<Rightarrow> vrec \<Rightarrow> ComplexSV" where
  "attributes rs v = organize_records
     \<lparr>records = rs, inversions = [], tlocs = [], breakends = [], insertions = [],
      cnvs = [], vcf_record = v, cluster_type = None, svtype = None, cpx_type = None\<rparr>"

text \<open>
  \<^verbatim>\<open>ComplexSV(records, cytobands, mei_bed)\<close>: \<^verbatim>\<open>organize_records\<close>, \<^verbatim>\<open>make_record\<close>,
  \<^verbatim>\<open>resolve\<close>, \<^verbatim>\<open>clean_record\<close>.
\<close>

definition new_ComplexSV :: "env \<Rightarrow> vrec list \<Rightarrow> error + ComplexSV" where
  "new_ComplexSV e rs =
     (case make_record e rs of
        Inl err \<Rightarrow> Inl err
      | Inr v \<Rightarrow>
          (case resolve e (attributes rs v) of
             Inl err \<Rightarrow> Inl err
           | Inr self' \<Rightarrow> Inr (clean_record e self')))"

section \<open>The cluster loop of \<^verbatim>\<open>resolve_complex_sv\<close>\<close>

text \<open>
  The state of the loop over the clusters: the deque \<^verbatim>\<open>cpx_records\<close>, the set
  \<^verbatim>\<open>cpx_record_ids\<close>, the \<^verbatim>\<open>ComplexSV\<close> objects constructed so far (the successive
  values of the loop variable \<^verbatim>\<open>cpx\<close>) and the number of random identifiers drawn.
  The clusters come from \<^verbatim>\<open>link_cpx\<close> and the random identifiers from
  \<^verbatim>\<open>random.choice\<close>; both are arguments here, the identifiers as the sequence of
  ten-character strings drawn. \<^verbatim>\<open>rescan_single_ender\<close> is an argument as well, with the
  result the call site unpacks: a pair of the record and the optional opposite-strand
  record, or an exception.
\<close>

record resolver =
  cpx_records :: "vrec list"
  cpx_record_ids :: "string set"
  constructed :: "ComplexSV list"
  drawn :: nat

definition rescue_cluster ::
  "(vrec \<Rightarrow> error + vrec \<times> vrec option) \<Rightarrow> vrec list \<Rightarrow> error + vrec list" where
  "rescue_cluster rescan cluster =
     (if length cluster = 1 \<and> SVTYPE (cluster ! 0) = ''INV'' then
        (case rescan (cluster ! 0) of
           Inl err \<Rightarrow> Inl err
         | Inr (rec, opp) \<Rightarrow> (case opp of None \<Rightarrow> Inr cluster | Some opp' \<Rightarrow> Inr [rec, opp']))
      else Inr cluster)"

text \<open>The branch for a cluster of insertions only: one \<^verbatim>\<open>ComplexSV\<close> per record.\<close>

fun resolve_insertions ::
  "env \<Rightarrow> (nat \<Rightarrow> string) \<Rightarrow> string \<Rightarrow> vrec list \<Rightarrow> resolver \<Rightarrow> error + resolver" where
  "resolve_insertions e random_id variant_prefix [] s = Inr s"
| "resolve_insertions e random_id variant_prefix (record # rest) s =
     (case new_ComplexSV e [record] of
        Inl err \<Rightarrow> Inl err
      | Inr cpx \<Rightarrow>
          (let v = (vcf_record cpx)\<lparr>rid := variant_prefix @ random_id (drawn s)\<rparr>
           in resolve_insertions e random_id variant_prefix rest
                (s\<lparr>cpx_record_ids := cpx_record_ids s \<union> set (record_ids cpx),
                   cpx_records := cpx_records s @ [v],
                   constructed := constructed s @ [cpx\<lparr>vcf_record := v\<rparr>],
                   drawn := Suc (drawn s)\<rparr>)))"

definition resolve_cluster ::
  "env \<Rightarrow> (vrec \<Rightarrow> error + vrec \<times> vrec option) \<Rightarrow> (nat \<Rightarrow> string) \<Rightarrow> string \<Rightarrow>
   vrec list \<Rightarrow> resolver \<Rightarrow> error + resolver" where
  "resolve_cluster e rescan random_id variant_prefix cluster s =
     (case rescue_cluster rescan cluster of
        Inl err \<Rightarrow> Inl err
      | Inr cluster' \<Rightarrow>
          if list_all (\<lambda>r. SVTYPE r = ''INS'') cluster' then
            resolve_insertions e random_id variant_prefix cluster' s
          else
            (case new_ComplexSV e cluster' of
               Inl err \<Rightarrow> Inl err
             | Inr cpx \<Rightarrow>
                 (let ids = cpx_record_ids s \<union> set (record_ids cpx)
                  in if svtype cpx = Some ''UNR'' then
                       (let unresolved_vid = ''UNRESOLVED_'' @ random_id (drawn s);
                            marked = map (\<lambda>record. record\<lparr>EVENT := Some unresolved_vid,
                                       CPX_TYPE := cpx_type cpx, UNRESOLVED := True\<rparr>)
                                       (records cpx)
                        in Inr (s\<lparr>cpx_record_ids := ids,
                                  cpx_records := cpx_records s @ marked,
                                  constructed := constructed s @ [cpx\<lparr>records := marked\<rparr>],
                                  drawn := Suc (drawn s)\<rparr>))
                     else
                       (let v = (vcf_record cpx)\<lparr>rid := variant_prefix @ random_id (drawn s)\<rparr>
                        in Inr (s\<lparr>cpx_record_ids := ids,
                                  cpx_records := cpx_records s @ [v],
                                  constructed := constructed s @ [cpx\<lparr>vcf_record := v\<rparr>],
                                  drawn := Suc (drawn s)\<rparr>)))))"

fun resolve_clusters ::
  "env \<Rightarrow> (vrec \<Rightarrow> error + vrec \<times> vrec option) \<Rightarrow> (nat \<Rightarrow> string) \<Rightarrow> string \<Rightarrow>
   vrec list list \<Rightarrow> resolver \<Rightarrow> error + resolver" where
  "resolve_clusters e rescan random_id variant_prefix [] s = Inr s"
| "resolve_clusters e rescan random_id variant_prefix (cluster # rest) s =
     (case resolve_cluster e rescan random_id variant_prefix cluster s of
        Inl err \<Rightarrow> Inl err
      | Inr s' \<Rightarrow> resolve_clusters e rescan random_id variant_prefix rest s')"

definition variant_prefix_of :: "string \<Rightarrow> string" where
  "variant_prefix_of variant_prefix =
     (if endswith variant_prefix ''_'' then variant_prefix else variant_prefix @ ''_'')"

definition empty_resolver :: resolver where
  "empty_resolver = \<lparr>cpx_records = [], cpx_record_ids = {}, constructed = [], drawn = 0\<rparr>"

text \<open>The member list a \<^verbatim>\<open>ComplexSV\<close> carries: \<^verbatim>\<open>vcf_record.info['MEMBERS']\<close>.\<close>

definition members :: "ComplexSV \<Rightarrow> string list" where
  "members cpx = (case MEMBERS (vcf_record cpx) of None \<Rightarrow> [] | Some ms \<Rightarrow> ms)"

section \<open>Single-ender rescue: \<^verbatim>\<open>rescan_single_ender\<close>\<close>









section \<open>Concrete records\<close>

text \<open>
  A record as read from a VCF line with identifier, chromosome, position, second
  chromosome, end, type and strands, called by one algorithm; and an environment whose
  cytoband table puts \<^verbatim>\<open>chr1\<close> and \<^verbatim>\<open>chr2\<close> on the p arm and every other chromosome
  on the q arm, with no mobile element, an inversion classifier that answers
  \<^verbatim>\<open>INV\<close> and an insertion classifier that answers \<^verbatim>\<open>INS_B2A\<close>.
\<close>

definition breakpoint ::
  "string \<Rightarrow> string \<Rightarrow> int \<Rightarrow> string \<Rightarrow> int \<Rightarrow> string \<Rightarrow> string \<Rightarrow> vrec" where
  "breakpoint name c p c2 e svt strands =
     \<lparr>rid = name, chrom = c, pos = p, stop = Some e, alts = [''<'' @ svt @ ''>''],
      SVTYPE = svt, CHR2 = c2, STRANDS = strands, SVLEN = e - p, ALGORITHMS = [''manta''],
      EVIDENCE = None, varGQ = None, CPX_TYPE = None, CPX_INTERVALS = None, SOURCE = None,
      MEMBERS = None, EVENT = None, UNRESOLVED = False\<rparr>"

definition example_env :: env where
  "example_env =
     \<lparr>header_info = [''SVTYPE'', ''CHR2'', ''END'', ''STRANDS'', ''SVLEN'', ''ALGORITHMS''],
      cytobands = (\<lambda>c p. if c = ''chr1'' \<or> c = ''chr2'' then [''p11.2''] else [''q21.1'']),
      mei_coverage = (\<lambda>c s t. 0),
      classify_complex_inversion = (\<lambda>FF RR cs. (''INV'', [])),
      classify_insertion = (\<lambda>p m. ''INS_B2A''),
      update_best_genotypes = (\<lambda>v rs. v)\<rparr>"



section \<open>Properties of the classifier\<close>

lemma if_mem: "a \<in> S \<Longrightarrow> b \<in> S \<Longrightarrow> (if c then a else b) \<in> S"
  by simp

lemma classify_labels:
  "classify_simple_translocation p m mh \<in> set [''TLOC_MISMATCH_CHROM'', ''CTX_PP/QQ'',
      ''CTX_PQ/QP'', ''CTX_INS_B2A'', ''CTX_INS_A2B'', ''CTX_INV_INS_B2A'',
      ''CTX_INV_INS_A2B'', ''CTX_UNR'']"
  unfolding classify_simple_translocation_def Let_def
  by (intro if_mem) simp_all

lemma translocation_type_of_label:
  assumes "cpx \<in> set [''TLOC_MISMATCH_CHROM'', ''CTX_PP/QQ'',
      ''CTX_PQ/QP'', ''CTX_INS_B2A'', ''CTX_INS_A2B'', ''CTX_INV_INS_B2A'',
      ''CTX_INV_INS_A2B'', ''CTX_UNR'']"
  shows "\<exists>sv cpx'. translocation_type p m a b cpx = Inr (sv, cpx')"
  using assms unfolding list.set insert_iff empty_iff
  by (elim disjE FalseE) (simp_all add: translocation_type_def)

lemma get_arms_error: "get_arms e p = Inl err \<Longrightarrow> err = StopIteration \<or> err = IndexError"
  unfolding get_arms_def get_arm_def
  by (simp split: list.splits sum.splits)

lemma resolve_translocation_no_guard:
  "resolve_translocation e self \<noteq> Inl (InvalidCpxType c)"
proof
  assume a: "resolve_translocation e self = Inl (InvalidCpxType c)"
  then obtain p m where pm: "py_sorted STRANDS (tlocs self) = [p, m]"
    unfolding resolve_translocation_def by (simp split: list.splits)
  show False
  proof (cases "get_arms e p")
    case (Inl err)
    from get_arms_error [OF Inl] have "err \<noteq> InvalidCpxType c" by auto
    with a pm Inl show False by (simp add: resolve_translocation_def)
  next
    case (Inr arms)
    obtain armA armB where arms: "arms = (armA, armB)" by (cases arms)
    obtain sv cpx where tt: "translocation_type p m armA armB
        (classify_simple_translocation p m 50) = Inr (sv, cpx)"
      using translocation_type_of_label [OF classify_labels] by blast
    from a pm Inr arms tt show False
      unfolding resolve_translocation_def
      by (simp add: Let_def split: if_splits option.splits prod.splits)
  qed
qed

text \<open>
  For each of the eight labels the first chain of \<^verbatim>\<open>resolve_translocation\<close> assigns a
  type, and when that type is \<^verbatim>\<open>INS\<close> one of the four insertion classes binds the
  sink and source coordinates.
\<close>

lemma translocation_type_span:
  assumes "cpx \<in> set [''TLOC_MISMATCH_CHROM'', ''CTX_PP/QQ'',
      ''CTX_PQ/QP'', ''CTX_INS_B2A'', ''CTX_INS_A2B'', ''CTX_INV_INS_B2A'',
      ''CTX_INV_INS_A2B'', ''CTX_UNR'']"
  shows "\<exists>sv cpx'. translocation_type p m a b cpx = Inr (sv, cpx') \<and>
           (sv = ''INS'' \<longrightarrow> translocation_insertion_span p m cpx' \<noteq> None)"
  using assms unfolding list.set insert_iff empty_iff
  by (elim disjE FalseE)
     (simp_all add: translocation_type_def translocation_insertion_span_def)

lemma resolve_translocation_errors:
  assumes a: "resolve_translocation e self = Inl err"
  shows "err = ValueError \<or> err = StopIteration \<or> err = IndexError"
proof (cases "\<exists>p m. py_sorted STRANDS (tlocs self) = [p, m]")
  case False
  with a show ?thesis
    unfolding resolve_translocation_def by (auto split: list.splits)
next
  case True
  then obtain p m where pm: "py_sorted STRANDS (tlocs self) = [p, m]" by blast
  show ?thesis
  proof (cases "get_arms e p")
    case (Inl err')
    with a pm have "err = err'" by (simp add: resolve_translocation_def)
    with get_arms_error [OF Inl] show ?thesis by blast
  next
    case (Inr arms)
    obtain armA armB where arms: "arms = (armA, armB)" by (cases arms)
    obtain sv cpx where tt: "translocation_type p m armA armB
        (classify_simple_translocation p m 50) = Inr (sv, cpx)"
      and span: "sv = ''INS'' \<longrightarrow> translocation_insertion_span p m cpx \<noteq> None"
      using translocation_type_span [OF classify_labels] by blast
    from a pm Inr arms tt span have False
      unfolding resolve_translocation_def
      by (auto simp: Let_def split: if_splits option.splits prod.splits)
    then show ?thesis ..
  qed
qed

text \<open>
  Claim C5, as stated, fails on its last clause: the guard is not the only exception
  that can escape. A well-formed \<^verbatim>\<open>+-\<close>/\<^verbatim>\<open>-+\<close> translocation pair whose position has
  no line in the cytoband table ends the constructor in \<^verbatim>\<open>StopIteration\<close>, raised by
  \<^verbatim>\<open>next(cytobands.fetch(region))\<close> in \<^verbatim>\<open>get_arms\<close>.
\<close>

theorem new_ComplexSV_empty_cytoband_fetch:
  "new_ComplexSV (example_env\<lparr>cytobands := (\<lambda>c p. [])\<rparr>)
     [breakpoint ''t1'' ''chr1'' 1000 ''chr2'' 5000 ''BND'' ''+-'',
      breakpoint ''t2'' ''chr1'' 1010 ''chr2'' 4990 ''BND'' ''-+''] = Inl StopIteration"
  by (simp add: new_ComplexSV_def make_record_def example_env_def attributes_def
        organize_records_def breakpoint_def resolve_def set_cluster_type_def
        resolve_candidate_def resolve_translocation_def ok_tloc_strands_def
        py_sorted_def get_arms_def get_arm_def Let_def)

text \<open>
  Claim C5, amended. For every pair of breakends and every buffer,
  \<^verbatim>\<open>classify_simple_translocation\<close> returns one of the eight labels, and
  \<^verbatim>\<open>resolve_translocation\<close> never ends in its \<^verbatim>\<open>Invalid cpx type\<close> exception,
  whatever the object and the environment. The exceptions that can end
  \<^verbatim>\<open>resolve_translocation\<close> are those of the cytoband lookup in \<^verbatim>\<open>get_arms\<close>
  (\<^verbatim>\<open>StopIteration\<close> on an empty fetch, \<^verbatim>\<open>IndexError\<close>) and the \<^verbatim>\<open>ValueError\<close> of
  unpacking a list of translocations that does not have two elements.
\<close>

theorem translocation_guard_unreachable:
  "classify_simple_translocation plus_r minus_r mh_buffer \<in>
     set [''TLOC_MISMATCH_CHROM'', ''CTX_PP/QQ'', ''CTX_PQ/QP'', ''CTX_INS_B2A'',
          ''CTX_INS_A2B'', ''CTX_INV_INS_B2A'', ''CTX_INV_INS_A2B'', ''CTX_UNR''] \<and>
   (\<forall>c. resolve_translocation e self \<noteq> Inl (InvalidCpxType c)) \<and>
   (\<forall>err. resolve_translocation e self = Inl err \<longrightarrow>
      err = ValueError \<or> err = StopIteration \<or> err = IndexError)"
  using classify_labels resolve_translocation_no_guard resolve_translocation_errors
  by blast

theorem translocation_guard_unreachable_witness:
  "classify_simple_translocation
     (breakpoint ''t1'' ''chr1'' 1000 ''chr2'' 5000 ''BND'' ''+-'')
     (breakpoint ''t2'' ''chr1'' 1010 ''chr2'' 4990 ''BND'' ''-+'') 50 = ''CTX_PP/QQ'' \<and>
   (\<forall>c. resolve_translocation (example_env\<lparr>cytobands := (\<lambda>c p. [])\<rparr>)
      (attributes [breakpoint ''t1'' ''chr1'' 1000 ''chr2'' 5000 ''BND'' ''+-'',
                   breakpoint ''t2'' ''chr1'' 1010 ''chr2'' 4990 ''BND'' ''-+'']
         (breakpoint ''t1'' ''chr1'' 1000 ''chr2'' 5000 ''BND'' ''+-''))
      \<noteq> Inl (InvalidCpxType c)) \<and>
   resolve_translocation (example_env\<lparr>cytobands := (\<lambda>c p. [])\<rparr>)
      (attributes [breakpoint ''t1'' ''chr1'' 1000 ''chr2'' 5000 ''BND'' ''+-'',
                   breakpoint ''t2'' ''chr1'' 1010 ''chr2'' 4990 ''BND'' ''-+'']
         (breakpoint ''t1'' ''chr1'' 1000 ''chr2'' 5000 ''BND'' ''+-''))
      = Inl StopIteration \<and>
   (StopIteration = ValueError \<or> StopIteration = StopIteration \<or>
    StopIteration = IndexError)"
proof -
  let ?p = "breakpoint ''t1'' ''chr1'' 1000 ''chr2'' 5000 ''BND'' ''+-''"
  let ?m = "breakpoint ''t2'' ''chr1'' 1010 ''chr2'' 4990 ''BND'' ''-+''"
  let ?e = "example_env\<lparr>cytobands := (\<lambda>c p. [])\<rparr>"
  have cls: "classify_simple_translocation ?p ?m 50 = ''CTX_PP/QQ''"
    by (simp add: classify_simple_translocation_def breakpoint_def stop_of_def)
  have raised: "resolve_translocation ?e (attributes [?p, ?m] ?p) = Inl StopIteration"
    by (simp add: resolve_translocation_def attributes_def organize_records_def
          breakpoint_def py_sorted_def get_arms_def get_arm_def example_env_def)
  note t = translocation_guard_unreachable [of ?p ?m 50 ?e "attributes [?p, ?m] ?p"]
  from t have guard: "\<forall>c. resolve_translocation ?e (attributes [?p, ?m] ?p)
      \<noteq> Inl (InvalidCpxType c)"
    by (elim conjE)
  from t raised have "StopIteration = ValueError \<or> StopIteration = StopIteration \<or>
      StopIteration = IndexError"
    by (elim conjE allE [of _ StopIteration]) simp
  with cls guard raised show ?thesis by (intro conjI)
qed

text \<open>
  Claim C6. For a pair classified \<^verbatim>\<open>CTX_PP/QQ\<close> or \<^verbatim>\<open>CTX_PQ/QP\<close>,
  \<^verbatim>\<open>resolve_translocation\<close> returns, and: when the two breakends have the same
  position and the same end, the result is \<^verbatim>\<open>UNR\<close> with the class suffixed
  \<^verbatim>\<open>_DUPLICATE_COORDS\<close>; otherwise it is \<^verbatim>\<open>CTX\<close> exactly when the arms fit the
  orientation (equal for \<^verbatim>\<open>CTX_PP/QQ\<close>, different for \<^verbatim>\<open>CTX_PQ/QP\<close>), the record
  taking chromosome, position, end and second chromosome from the plus breakend and
  length \<open>-1\<close>; and otherwise \<^verbatim>\<open>UNR\<close> with the class suffixed \<^verbatim>\<open>_MISMATCH\<close>.
\<close>

theorem resolve_translocation_reciprocal:
  assumes pm: "py_sorted STRANDS (tlocs self) = [plus_r, minus_r]"
    and arms: "get_arms e plus_r = Inr (armA, armB)"
    and cls: "classify_simple_translocation plus_r minus_r 50 = cpx"
    and rcp: "cpx = ''CTX_PP/QQ'' \<or> cpx = ''CTX_PQ/QP''"
  shows "\<exists>self'. resolve_translocation e self = Inr self' \<and>
     (if pos plus_r = pos minus_r \<and> stop_of plus_r = stop_of minus_r then
        svtype self' = Some ''UNR'' \<and> cpx_type self' = Some (cpx @ ''_DUPLICATE_COORDS'')
      else if (cpx = ''CTX_PP/QQ'' \<and> armA = armB) \<or> (cpx = ''CTX_PQ/QP'' \<and> armA \<noteq> armB) then
        svtype self' = Some ''CTX'' \<and> cpx_type self' = Some cpx \<and>
        chrom (vcf_record self') = chrom plus_r \<and>
        pos (vcf_record self') = pos plus_r \<and>
        stop (vcf_record self') = Some (stop_of plus_r) \<and>
        CHR2 (vcf_record self') = CHR2 plus_r \<and>
        SVLEN (vcf_record self') = - 1
      else svtype self' = Some ''UNR'' \<and> cpx_type self' = Some (cpx @ ''_MISMATCH''))"
  using rcp
proof
  assume c: "cpx = ''CTX_PP/QQ''"
  show ?thesis
    using pm arms cls
    by (simp add: resolve_translocation_def c translocation_type_def Let_def)
next
  assume c: "cpx = ''CTX_PQ/QP''"
  show ?thesis
    using pm arms cls
    by (simp add: resolve_translocation_def c translocation_type_def Let_def)
qed

theorem resolve_translocation_reciprocal_witness:
  "\<exists>self'. resolve_translocation example_env
      (attributes [breakpoint ''t1'' ''chr1'' 1000 ''chr2'' 5000 ''BND'' ''+-'',
                   breakpoint ''t2'' ''chr1'' 1010 ''chr2'' 4990 ''BND'' ''-+'']
         (breakpoint ''t1'' ''chr1'' 1000 ''chr2'' 5000 ''BND'' ''+-'')) = Inr self' \<and>
      svtype self' = Some ''CTX'' \<and> cpx_type self' = Some ''CTX_PP/QQ'' \<and>
      chrom (vcf_record self') = ''chr1'' \<and> pos (vcf_record self') = 1000 \<and>
      stop (vcf_record self') = Some 5000 \<and> CHR2 (vcf_record self') = ''chr2'' \<and>
      SVLEN (vcf_record self') = - 1"
proof -
  let ?p = "breakpoint ''t1'' ''chr1'' 1000 ''chr2'' 5000 ''BND'' ''+-''"
  let ?m = "breakpoint ''t2'' ''chr1'' 1010 ''chr2'' 4990 ''BND'' ''-+''"
  have h1: "py_sorted STRANDS (tlocs (attributes [?p, ?m] ?p)) = [?p, ?m]"
    by (simp add: attributes_def organize_records_def breakpoint_def py_sorted_def)
  have h2: "get_arms example_env ?p = Inr (CHR ''p'', CHR ''p'')"
    by (simp add: get_arms_def get_arm_def example_env_def breakpoint_def stop_of_def)
  have h3: "classify_simple_translocation ?p ?m 50 = ''CTX_PP/QQ''"
    by (simp add: classify_simple_translocation_def breakpoint_def stop_of_def)
  have h4: "''CTX_PP/QQ'' = ''CTX_PP/QQ'' \<or> ''CTX_PP/QQ'' = ''CTX_PQ/QP''" by simp
  from resolve_translocation_reciprocal [OF h1 h2 h3 h4]
  show ?thesis by (simp add: breakpoint_def stop_of_def)
qed

text \<open>
  Claim C8. For a breakend pair that \<^verbatim>\<open>classify_insertion\<close> labels \<^verbatim>\<open>INS_A2B\<close> or
  \<^verbatim>\<open>INS_B2A\<close>, \<^verbatim>\<open>resolve_insertion\<close> returns with \<^verbatim>\<open>svtype\<close> \<^verbatim>\<open>UNR\<close> when the
  sink span (\<^verbatim>\<open>sink_end - sink_start\<close>) is at least 100, and \<^verbatim>\<open>INS\<close> when it is
  smaller; the strands of the pair play no part.
\<close>

theorem resolve_insertion_sink_span:
  assumes pm: "py_sorted STRANDS (breakends self) = [plus_r, minus_r]"
    and cls: "classify_insertion e plus_r minus_r = cpx"
    and ab: "cpx = ''INS_A2B'' \<or> cpx = ''INS_B2A''"
  shows "\<exists>self'. resolve_insertion e self = Inr self' \<and>
     svtype self' = Some
       (if (if cpx = ''INS_B2A'' then pos minus_r - pos plus_r
            else stop_of plus_r - stop_of minus_r) \<ge> 100
        then ''UNR'' else ''INS'')"
  using ab
proof
  assume c: "cpx = ''INS_A2B''"
  show ?thesis
    using pm cls
    by (simp add: resolve_insertion_def c insertion_span_def set_unresolved_def Let_def
          split: list.splits)
next
  assume c: "cpx = ''INS_B2A''"
  show ?thesis
    using pm cls
    by (simp add: resolve_insertion_def c insertion_span_def set_unresolved_def Let_def
          split: list.splits)
qed

theorem resolve_insertion_sink_span_witness:
  "(\<exists>self'. resolve_insertion example_env
      (attributes [breakpoint ''b1'' ''chr1'' 1000 ''chr1'' 5000 ''BND'' ''+-'',
                   breakpoint ''b2'' ''chr1'' 1150 ''chr1'' 5200 ''BND'' ''-+'']
         (breakpoint ''b1'' ''chr1'' 1000 ''chr1'' 5000 ''BND'' ''+-'')) = Inr self' \<and>
      svtype self' = Some ''UNR'')"
proof -
  let ?p = "breakpoint ''b1'' ''chr1'' 1000 ''chr1'' 5000 ''BND'' ''+-''"
  let ?m = "breakpoint ''b2'' ''chr1'' 1150 ''chr1'' 5200 ''BND'' ''-+''"
  have h1: "py_sorted STRANDS (breakends (attributes [?p, ?m] ?p)) = [?p, ?m]"
    by (simp add: attributes_def organize_records_def breakpoint_def py_sorted_def)
  have h2: "classify_insertion example_env ?p ?m = ''INS_B2A''"
    by (simp add: example_env_def)
  have h3: "''INS_B2A'' = ''INS_A2B'' \<or> ''INS_B2A'' = ''INS_B2A''" by simp
  from resolve_insertion_sink_span [OF h1 h2 h3]
  show ?thesis by (simp add: breakpoint_def)
qed

text \<open>
  Claim C3. A cluster of one insertion record and one same-chromosome breakend has a
  total of two and no paired partition; \<^verbatim>\<open>set_cluster_type\<close> gives it
  \<^verbatim>\<open>MIXED_BREAKENDS\<close>, where the claim expects \<^verbatim>\<open>RESOLVED_INSERTION\<close>.
\<close>

theorem set_cluster_type_lone_insertion_with_breakend:
  "map rid (insertions (attributes
      [breakpoint ''ins1'' ''chr1'' 1000 ''chr1'' 1001 ''INS'' ''+-'',
       breakpoint ''bnd1'' ''chr1'' 1010 ''chr1'' 5000 ''BND'' ''+-''] v)) = [''ins1''] \<and>
   map rid (breakends (attributes
      [breakpoint ''ins1'' ''chr1'' 1000 ''chr1'' 1001 ''INS'' ''+-'',
       breakpoint ''bnd1'' ''chr1'' 1010 ''chr1'' 5000 ''BND'' ''+-''] v)) = [''bnd1''] \<and>
   cluster_type (set_cluster_type (attributes
      [breakpoint ''ins1'' ''chr1'' 1000 ''chr1'' 1001 ''INS'' ''+-'',
       breakpoint ''bnd1'' ''chr1'' 1010 ''chr1'' 5000 ''BND'' ''+-''] v))
     = Some ''MIXED_BREAKENDS''"
  by (simp add: attributes_def organize_records_def breakpoint_def set_cluster_type_def
        list_eq_int_def Let_def)

text \<open>
  Whatever the partition, \<^verbatim>\<open>set_cluster_type\<close> assigns \<^verbatim>\<open>RESOLVED_INSERTION\<close> only
  to a cluster whose four counts total one.
\<close>

lemma set_cluster_type_resolved_insertion:
  assumes "cluster_type (set_cluster_type self) = Some ''RESOLVED_INSERTION''"
  shows "length (inversions self) + length (tlocs self) + length (breakends self) +
         length (insertions self) = 1"
  using assms unfolding set_cluster_type_def Let_def list_eq_int_def
  by (simp split: if_splits)

lemma resolve_inversion_stop:
  assumes "resolve_inversion e self = Inr self'"
  shows "stop (vcf_record self') = None"
proof -
  from assms obtain i0 i1 where i: "inversions self = [i0, i1]"
    unfolding resolve_inversion_def by (simp split: list.splits)
  from assms show ?thesis
    unfolding resolve_inversion_def i
    by (auto simp: Let_def set_alts_def split: prod.splits if_splits option.splits)
qed

text \<open>
  Claim C4. An opposite-strand inversion pair at 100-200 and 110-210 resolves to
  \<^verbatim>\<open>INV\<close>; the branch computes the end \<open>max 200 210\<close> and writes it, and then assigns
  \<^verbatim>\<open>alts\<close>: the record it leaves has no end.
\<close>

theorem resolve_inversion_loses_stop:
  "\<exists>cpx. new_ComplexSV example_env
      [breakpoint ''inv1'' ''chr1'' 100 ''chr1'' 200 ''INV'' ''++'',
       breakpoint ''inv2'' ''chr1'' 110 ''chr1'' 210 ''INV'' ''--''] = Inr cpx \<and>
      svtype cpx = Some ''INV'' \<and>
      pos (vcf_record cpx) = 100 \<and>
      SVLEN (vcf_record cpx) = 110 \<and>
      stop (vcf_record cpx) = None"
  by (simp add: new_ComplexSV_def make_record_def example_env_def attributes_def
        organize_records_def breakpoint_def resolve_def set_cluster_type_def
        resolve_candidate_def resolve_inversion_def inversion_svtype_def set_alts_def
        stop_of_def make_inversion_intervals_def endswith_def clean_record_def
        py_sorted_def Let_def)

section \<open>Properties of the stream reconciliation\<close>







lemma breakpoint_sel [simp]:
  "rid (breakpoint name c p c2 e svt strands) = name"
  "chrom (breakpoint name c p c2 e svt strands) = c"
  "pos (breakpoint name c p c2 e svt strands) = p"
  "stop (breakpoint name c p c2 e svt strands) = Some e"
  "SVTYPE (breakpoint name c p c2 e svt strands) = svt"
  "CHR2 (breakpoint name c p c2 e svt strands) = c2"
  "STRANDS (breakpoint name c p c2 e svt strands) = strands"
  by (simp_all add: breakpoint_def)

text \<open>
  Claim C2. A sorted stream of three records on one chromosome, at 100, 120 and 150:
  the first and the third are same-strand inversions that form one cluster, the second
  is a deletion in a cluster of its own. Both clusters are unresolved, so the deque
  holds their members in cluster order, at 100, 150 and 120; all three identifiers are
  consumed, and \<^verbatim>\<open>_merge_records\<close> yields the deque as it stands: 150 comes
  before 120.
\<close>

theorem merge_records_follows_cluster_order:
  "\<exists>s out. resolve_clusters example_env rescan random_id ''CPX_''
       [[breakpoint ''a'' ''chr1'' 100 ''chr1'' 9000 ''INV'' ''++'',
         breakpoint ''c'' ''chr1'' 150 ''chr1'' 9050 ''INV'' ''++''],
        [breakpoint ''b'' ''chr1'' 120 ''chr1'' 300 ''DEL'' '''']] empty_resolver = Inr s \<and>
     cpx_record_ids s = {''a'', ''c'', ''b''} \<and>
     merge_records lt
       [Some (breakpoint ''a'' ''chr1'' 100 ''chr1'' 9000 ''INV'' ''++''),
        Some (breakpoint ''b'' ''chr1'' 120 ''chr1'' 300 ''DEL'' ''''),
        Some (breakpoint ''c'' ''chr1'' 150 ''chr1'' 9050 ''INV'' ''++'')]
       (cpx_records s) (cpx_record_ids s) = Inr out \<and>
     map (map_option (\<lambda>r. (rid r, chrom r, pos r))) out =
       [Some (''a'', ''chr1'', 100), Some (''c'', ''chr1'', 150), Some (''b'', ''chr1'', 120)]"
proof -
  let ?a = "breakpoint ''a'' ''chr1'' 100 ''chr1'' 9000 ''INV'' ''++''"
  let ?b = "breakpoint ''b'' ''chr1'' 120 ''chr1'' 300 ''DEL'' ''''"
  let ?c = "breakpoint ''c'' ''chr1'' 150 ''chr1'' 9050 ''INV'' ''++''"
  obtain cpx1 where c1: "new_ComplexSV example_env [?a, ?c] = Inr cpx1"
      "svtype cpx1 = Some ''UNR''" "records cpx1 = [?a, ?c]"
    by (simp add: new_ComplexSV_def make_record_def
          example_env_def attributes_def organize_records_def resolve_def
          set_cluster_type_def resolve_candidate_def remove_SR_only_breakpoints_def
          set_unresolved_def clean_record_def Let_def)
  obtain cpx2 where c2: "new_ComplexSV example_env [?b] = Inr cpx2"
      "svtype cpx2 = Some ''UNR''" "records cpx2 = [?b]"
    by (simp add: new_ComplexSV_def make_record_def
          example_env_def attributes_def organize_records_def resolve_def
          set_cluster_type_def resolve_candidate_def remove_SR_only_breakpoints_def
          set_unresolved_def clean_record_def Let_def)
  let ?q = "[?a\<lparr>EVENT := Some (''UNRESOLVED_'' @ random_id 0), CPX_TYPE := cpx_type cpx1,
                UNRESOLVED := True\<rparr>,
            ?c\<lparr>EVENT := Some (''UNRESOLVED_'' @ random_id 0), CPX_TYPE := cpx_type cpx1,
                UNRESOLVED := True\<rparr>,
            ?b\<lparr>EVENT := Some (''UNRESOLVED_'' @ random_id (Suc 0)), CPX_TYPE := cpx_type cpx2,
                UNRESOLVED := True\<rparr>]"
  have "\<exists>s. resolve_clusters example_env rescan random_id ''CPX_'' [[?a, ?c], [?b]]
      empty_resolver = Inr s \<and> cpx_records s = ?q \<and> cpx_record_ids s = {''a'', ''c'', ''b''}"
    by (simp add: resolve_cluster_def rescue_cluster_def c1 c2 record_ids_def
          empty_resolver_def Let_def insert_commute)
  then obtain s where run: "resolve_clusters example_env rescan random_id ''CPX_''
      [[?a, ?c], [?b]] empty_resolver = Inr s"
    and q: "cpx_records s = ?q" and ids: "cpx_record_ids s = {''a'', ''c'', ''b''}"
    by blast
  have merged: "merge_records lt [Some ?a, Some ?b, Some ?c] (cpx_records s)
      (cpx_record_ids s) = Inr (map Some ?q)"
    unfolding q ids
    by (simp add: merge_records_def next_record_def next_cpx_def merge_loop.simps)
  have shown: "map (map_option (\<lambda>r. (rid r, chrom r, pos r))) (map Some ?q) =
       [Some (''a'', ''chr1'', 100), Some (''c'', ''chr1'', 150), Some (''b'', ''chr1'', 120)]"
    by simp
  show ?thesis
    by (rule exI [of _ s], rule exI [of _ "map Some ?q"], intro conjI)
       (rule run ids merged shown)+
qed

section \<open>Properties of the single-ender rescue\<close>














section \<open>Properties of the cluster loop\<close>


















lemma members_renamed [simp]:
  "members (cpx\<lparr>vcf_record := (vcf_record cpx)\<lparr>rid := name\<rparr>\<rparr>) = members cpx"
  "members (cpx\<lparr>records := rs\<rparr>) = members cpx"
  by (simp_all add: members_def)






section \<open>Reconciliation of the streams the cluster loop leaves\<close>














text \<open>
  Claim C10. When the original stream and the deque are both empty, the generator
  yields exactly one value, and that value is \<^verbatim>\<open>None\<close>.
\<close>

theorem merge_records_both_empty:
  "merge_records is_smaller_chrom [] [] ids = Inr [None]"
  by (simp add: merge_records_def next_record_def next_cpx_def merge_loop.simps)

end
